theory Spec2Isabelle
  imports Main "HOL-Library.Char_ord" "HOL-Library.List_Lexorder" "HOL-Library.Multiset"
    "HOL-Library.Word"
begin

unbundle bit_operations_syntax

section \<open>Strings and numbers\<close>

text \<open>
  A JavaScript string is modelled as a \<^typ>\<open>string\<close> of ASCII characters. On such strings
  the code-unit order of \<^verbatim>\<open>Array.prototype.sort\<close> is the lexicographic byte order, the
  UTF-8 encoding hashed by \<^verbatim>\<open>crypto\<close> is the string itself, and \<^verbatim>\<open>toUpperCase\<close>
  only changes the letters a to z.
\<close>

definition digit_char :: "nat \<Rightarrow> char" where
  "digit_char n = ''0123456789'' ! (n mod 10)"

definition is_digit :: "char \<Rightarrow> bool" where
  "is_digit c = (c \<in> set ''0123456789'')"

definition digit_value :: "char \<Rightarrow> nat" where
  "digit_value c = of_char c - 48"

fun show_nat :: "nat \<Rightarrow> string" where
  "show_nat n = (if n < 10 then [digit_char n] else show_nat (n div 10) @ [digit_char n])"

declare show_nat.simps [simp del]

text \<open>
  The safe integers, from \<open>-(2^53 - 1)\<close> to \<open>2^53 - 1\<close>: the integers that a Number holds
  exactly and that \<^verbatim>\<open>Number.prototype.toString\<close> writes in plain decimals, digit for
  digit.
\<close>

definition safe_integer :: "int \<Rightarrow> bool" where
  "safe_integer i = (\<bar>i\<bar> \<le> 9007199254740991)"

definition show_int :: "int \<Rightarrow> string" where
  "show_int i = (if i < 0 then CHR ''-'' # show_nat (nat (- i)) else show_nat (nat i))"

definition decimal_value :: "string \<Rightarrow> nat" where
  "decimal_value s = foldl (\<lambda>a c. 10 * a + digit_value c) 0 s"

definition upper_char :: "char \<Rightarrow> char" where
  "upper_char c =
     (case map_of (zip ''abcdefghijklmnopqrstuvwxyz'' ''ABCDEFGHIJKLMNOPQRSTUVWXYZ'') c of
        Some u \<Rightarrow> u
      | None \<Rightarrow> c)"

definition toUpperCase :: "string \<Rightarrow> string" where
  "toUpperCase s = map upper_char s"

definition is_space :: "char \<Rightarrow> bool" where
  "is_space c = (of_char c \<in> {9, 10, 11, 12, 13, 32 :: nat})"


text \<open>\<^verbatim>\<open>Array.prototype.join\<close> on an array of strings.\<close>

fun join :: "string \<Rightarrow> string list \<Rightarrow> string" where
  "join sep [] = []"
| "join sep [x] = x"
| "join sep (x # y # ys) = x @ sep @ join sep (y # ys)"

section \<open>JavaScript values\<close>

text \<open>
  The values that reach this program are JSON values and \<^verbatim>\<open>undefined\<close>. \<open>JNum n\<close> is
  the Number whose value is the integer \<open>n\<close> and \<open>JNaN\<close> is the Number NaN, which
  \<^verbatim>\<open>parseInt\<close> returns; fractions and infinities are outside the model, and so is the
  text of an integer that is not safe (JavaScript rounds it to a double and writes it with
  trailing zeros or an exponent). An object is the list of its own properties in creation
  order, with distinct keys; its prototype is \<^verbatim>\<open>Object.prototype\<close>.
\<close>

datatype jsval =
    JUndefined
  | JNull
  | JBool bool
  | JNum int
  | JNaN
  | JStr string
  | JArr "jsval list"
  | JObj "(string \<times> jsval) list"

text \<open>
  Exceptions. The program only reads the message of what it catches and reports it in a
  field named \<^verbatim>\<open>error\<close>; the model keeps the exception there. The message of a
  \<open>TypeError\<close>, \<open>SyntaxError\<close> or \<open>RangeError\<close> raised by the engine is chosen by the
  engine and is not modelled; \<open>Error m\<close> has the message \<open>m\<close>, and \<open>ErrorWith p e\<close>
  the text \<open>p\<close> followed by the message of \<open>e\<close>.

  \<open>OutsideModel\<close> is no exception of JavaScript. It is the answer of this model where it
  has none: for the text of a number that is not a safe integer. A result that carries it
  says nothing about the program.
\<close>

datatype js_error =
    TypeError
  | SyntaxError
  | RangeError
  | Error string
  | ErrorWith string js_error
  | OutsideModel

text \<open>Sequencing of steps that may throw.\<close>

definition attempt :: "js_error + 'a \<Rightarrow> ('a \<Rightarrow> js_error + 'b) \<Rightarrow> js_error + 'b" where
  "attempt m f = (case m of Inl e \<Rightarrow> Inl e | Inr x \<Rightarrow> f x)"

definition truthy :: "jsval \<Rightarrow> bool" where
  "truthy v = (case v of
      JUndefined \<Rightarrow> False
    | JNull \<Rightarrow> False
    | JBool b \<Rightarrow> b
    | JNum n \<Rightarrow> n \<noteq> 0
    | JNaN \<Rightarrow> False
    | JStr s \<Rightarrow> s \<noteq> []
    | JArr _ \<Rightarrow> True
    | JObj _ \<Rightarrow> True)"

text \<open>The operator \<^verbatim>\<open>a || b\<close>.\<close>

definition js_or :: "jsval \<Rightarrow> jsval \<Rightarrow> jsval" where
  "js_or a b = (if truthy a then a else b)"

definition is_nullish :: "jsval \<Rightarrow> bool" where
  "is_nullish v = (v = JUndefined \<or> v = JNull)"

text \<open>
  String conversion, as done by \<^verbatim>\<open>"..." + v\<close>, by a template literal and by
  \<^verbatim>\<open>v.toString()\<close> on a value that is not null or undefined. A safe integer is
  written in decimals; the model has no text for another integer. An array joins its
  elements with a comma, null and undefined elements giving the empty string. A plain
  object gives \<^verbatim>\<open>[object Object]\<close>, unless it has an own property \<^verbatim>\<open>toString\<close>: a
  JSON value is not callable, and the conversion throws.
\<close>

fun to_string :: "jsval \<Rightarrow> js_error + string"
  and join_elements :: "jsval list \<Rightarrow> js_error + string" where
  "to_string JUndefined = Inr ''undefined''"
| "to_string JNull = Inr ''null''"
| "to_string (JBool b) = Inr (if b then ''true'' else ''false'')"
| "to_string (JNum n) = (if safe_integer n then Inr (show_int n) else Inl OutsideModel)"
| "to_string JNaN = Inr ''NaN''"
| "to_string (JStr s) = Inr s"
| "to_string (JArr xs) = join_elements xs"
| "to_string (JObj kvs) =
     (if ''toString'' \<in> set (map fst kvs) then Inl TypeError else Inr ''[object Object]'')"
| "join_elements [] = Inr []"
| "join_elements (x # xs) =
     (case (if is_nullish x then Inr [] else to_string x) of
        Inl e \<Rightarrow> Inl e
      | Inr s \<Rightarrow>
          (if xs = [] then Inr s
           else case join_elements xs of
                  Inl e \<Rightarrow> Inl e
                | Inr r \<Rightarrow> Inr (s @ '','' @ r)))"


text \<open>
  Reading a property \<^verbatim>\<open>v.k\<close>. The keys this program reads are not properties of the
  built-in prototypes, so a missing own property reads as \<^verbatim>\<open>undefined\<close>; reading from
  null or undefined throws.
\<close>

definition lookup :: "(string \<times> jsval) list \<Rightarrow> string \<Rightarrow> jsval" where
  "lookup kvs k = (case map_of kvs k of Some v \<Rightarrow> v | None \<Rightarrow> JUndefined)"

definition get_prop :: "jsval \<Rightarrow> string \<Rightarrow> js_error + jsval" where
  "get_prop v k = (case v of
      JUndefined \<Rightarrow> Inl TypeError
    | JNull \<Rightarrow> Inl TypeError
    | JObj kvs \<Rightarrow> Inr (lookup kvs k)
    | _ \<Rightarrow> Inr JUndefined)"

section \<open>Objects and the order of their keys\<close>

text \<open>
  An array index is the canonical decimal string of an integer from 0 to \<open>2^32 - 2\<close>.
  The own keys of an object are enumerated with the array indices first, in ascending
  numeric order, followed by the other keys in creation order; \<^verbatim>\<open>Object.keys\<close> and
  \<^verbatim>\<open>for ... in\<close> both follow this order.
\<close>

definition is_array_index :: "string \<Rightarrow> bool" where
  "is_array_index k =
     (k \<noteq> [] \<and> list_all is_digit k \<and> (length k = 1 \<or> hd k \<noteq> CHR ''0'')
      \<and> decimal_value k < 4294967295)"

definition own_keys :: "(string \<times> jsval) list \<Rightarrow> string list" where
  "own_keys kvs =
     sort_key decimal_value (filter is_array_index (map fst kvs))
     @ filter (\<lambda>k. \<not> is_array_index k) (map fst kvs)"

text \<open>The own enumerable properties of a value, as \<^verbatim>\<open>Object.keys\<close> sees them.\<close>

definition own_entries :: "jsval \<Rightarrow> js_error + (string \<times> jsval) list" where
  "own_entries v = (case v of
      JUndefined \<Rightarrow> Inl TypeError
    | JNull \<Rightarrow> Inl TypeError
    | JObj kvs \<Rightarrow> Inr kvs
    | JArr xs \<Rightarrow> Inr (zip (map show_nat [0..<length xs]) xs)
    | JStr s \<Rightarrow> Inr (zip (map show_nat [0..<length s]) (map (\<lambda>c. JStr [c]) s))
    | _ \<Rightarrow> Inr [])"

datatype prototype = ObjectPrototype | NullPrototype | ValuePrototype jsval

record js_object =
  own_props :: "(string \<times> jsval) list"
  proto :: prototype

definition empty_object :: js_object where
  "empty_object = \<lparr>own_props = [], proto = ObjectPrototype\<rparr>"

fun upsert :: "string \<Rightarrow> jsval \<Rightarrow> (string \<times> jsval) list \<Rightarrow> (string \<times> jsval) list" where
  "upsert k v [] = [(k, v)]"
| "upsert k v ((k', v') # kvs) =
     (if k' = k then (k, v) # kvs else (k', v') # upsert k v kvs)"

text \<open>
  The assignment \<^verbatim>\<open>obj[k] = v\<close>. It creates or updates an own property, except for the
  key \<^verbatim>\<open>__proto__\<close>, which \<^verbatim>\<open>Object.prototype\<close> defines with a setter: the setter
  replaces the prototype when \<open>v\<close> is an object or null and does nothing otherwise. An
  object whose prototype is null has no such setter.
\<close>

definition set_prop :: "js_object \<Rightarrow> string \<Rightarrow> jsval \<Rightarrow> js_object" where
  "set_prop obj k v =
     (if k = ''__proto__'' \<and> proto obj \<noteq> NullPrototype then
        (case v of
           JNull \<Rightarrow> obj\<lparr>proto := NullPrototype\<rparr>
         | JObj _ \<Rightarrow> obj\<lparr>proto := ValuePrototype v\<rparr>
         | JArr _ \<Rightarrow> obj\<lparr>proto := ValuePrototype v\<rparr>
         | _ \<Rightarrow> obj)
      else obj\<lparr>own_props := upsert k v (own_props obj)\<rparr>)"

text \<open>
  Whether \<^verbatim>\<open>obj.hasOwnProperty\<close> is the built-in method: not when an own property or
  a property of a replaced prototype shadows it with a JSON value, nor when the prototype
  is null.
\<close>

definition hasOwnProperty_callable :: "js_object \<Rightarrow> bool" where
  "hasOwnProperty_callable obj =
     (''hasOwnProperty'' \<notin> set (map fst (own_props obj)) \<and>
      (case proto obj of
         ObjectPrototype \<Rightarrow> True
       | NullPrototype \<Rightarrow> False
       | ValuePrototype (JObj kvs) \<Rightarrow> ''hasOwnProperty'' \<notin> set (map fst kvs)
       | ValuePrototype _ \<Rightarrow> True))"

text \<open>The keys a \<^verbatim>\<open>for ... in\<close> loop visits: the own keys, then the inherited enumerable ones.\<close>

definition for_in_keys :: "js_object \<Rightarrow> string list" where
  "for_in_keys obj =
     own_keys (own_props obj) @
     (case proto obj of
        ValuePrototype v \<Rightarrow>
          (case own_entries v of
             Inr kvs \<Rightarrow> filter (\<lambda>k. k \<notin> set (map fst (own_props obj))) (own_keys kvs)
           | Inl _ \<Rightarrow> [])
      | _ \<Rightarrow> [])"

section \<open>The digests\<close>

text \<open>
  \<^verbatim>\<open>crypto.createHash(name).update(s).digest('hex')\<close> for the names \<^verbatim>\<open>md5\<close>
  (RFC 1321) and \<^verbatim>\<open>sha256\<close> (FIPS 180-4): the bytes of the string are padded, cut
  into blocks of 64 bytes and folded into a state of 32-bit words; the digest is the
  state written in lower-case hexadecimal.
\<close>

type_synonym byte = "8 word"
type_synonym word32 = "32 word"

definition string_bytes :: "string \<Rightarrow> byte list" where
  "string_bytes s = map (\<lambda>c. of_nat (of_char c)) s"

definition hex_digit :: "nat \<Rightarrow> char" where
  "hex_digit n = ''0123456789abcdef'' ! (n mod 16)"

definition hex_byte :: "byte \<Rightarrow> string" where
  "hex_byte b = [hex_digit (unat b div 16), hex_digit (unat b)]"

definition hex :: "byte list \<Rightarrow> string" where
  "hex bs = concat (map hex_byte bs)"

definition blocks64 :: "byte list \<Rightarrow> byte list list" where
  "blocks64 bs = map (\<lambda>i. take 64 (drop (64 * i) bs)) [0..<length bs div 64]"

definition zero_padding :: "nat \<Rightarrow> byte list" where
  "zero_padding len = replicate ((119 - len mod 64) mod 64) 0"

definition le_bytes :: "nat \<Rightarrow> nat \<Rightarrow> byte list" where
  "le_bytes k n = map (\<lambda>i. of_nat (n div 256 ^ i)) [0..<k]"

definition be_bytes :: "nat \<Rightarrow> nat \<Rightarrow> byte list" where
  "be_bytes k n = rev (le_bytes k n)"

definition le_word32 :: "byte list \<Rightarrow> word32" where
  "le_word32 bs = foldr (\<lambda>b w. ucast b OR push_bit 8 w) bs 0"

definition be_word32 :: "byte list \<Rightarrow> word32" where
  "be_word32 bs = le_word32 (rev bs)"

definition words_of :: "(byte list \<Rightarrow> word32) \<Rightarrow> byte list \<Rightarrow> word32 list" where
  "words_of rd block = map (\<lambda>i. rd (take 4 (drop (4 * i) block))) [0..<16]"

subsection \<open>MD5\<close>

definition md5_K :: "word32 list" where
  "md5_K = [
     0xD76AA478, 0xE8C7B756, 0x242070DB, 0xC1BDCEEE,
     0xF57C0FAF, 0x4787C62A, 0xA8304613, 0xFD469501,
     0x698098D8, 0x8B44F7AF, 0xFFFF5BB1, 0x895CD7BE,
     0x6B901122, 0xFD987193, 0xA679438E, 0x49B40821,
     0xF61E2562, 0xC040B340, 0x265E5A51, 0xE9B6C7AA,
     0xD62F105D, 0x02441453, 0xD8A1E681, 0xE7D3FBC8,
     0x21E1CDE6, 0xC33707D6, 0xF4D50D87, 0x455A14ED,
     0xA9E3E905, 0xFCEFA3F8, 0x676F02D9, 0x8D2A4C8A,
     0xFFFA3942, 0x8771F681, 0x6D9D6122, 0xFDE5380C,
     0xA4BEEA44, 0x4BDECFA9, 0xF6BB4B60, 0xBEBFBC70,
     0x289B7EC6, 0xEAA127FA, 0xD4EF3085, 0x04881D05,
     0xD9D4D039, 0xE6DB99E5, 0x1FA27CF8, 0xC4AC5665,
     0xF4292244, 0x432AFF97, 0xAB9423A7, 0xFC93A039,
     0x655B59C3, 0x8F0CCC92, 0xFFEFF47D, 0x85845DD1,
     0x6FA87E4F, 0xFE2CE6E0, 0xA3014314, 0x4E0811A1,
     0xF7537E82, 0xBD3AF235, 0x2AD7D2BB, 0xEB86D391]"

definition md5_s :: "nat list" where
  "md5_s = [
     7, 12, 17, 22, 7, 12, 17, 22, 7, 12, 17, 22, 7, 12, 17, 22,
     5, 9, 14, 20, 5, 9, 14, 20, 5, 9, 14, 20, 5, 9, 14, 20,
     4, 11, 16, 23, 4, 11, 16, 23, 4, 11, 16, 23, 4, 11, 16, 23,
     6, 10, 15, 21, 6, 10, 15, 21, 6, 10, 15, 21, 6, 10, 15, 21]"

type_synonym md5_state = "word32 \<times> word32 \<times> word32 \<times> word32"

definition md5_init :: md5_state where
  "md5_init = (0x67452301, 0xEFCDAB89, 0x98BADCFE, 0x10325476)"

definition md5_step :: "word32 list \<Rightarrow> md5_state \<Rightarrow> nat \<Rightarrow> md5_state" where
  "md5_step M st i =
     (case st of (a, b, c, d) \<Rightarrow>
        let f = (if i < 16 then (b AND c) OR (NOT b AND d)
                 else if i < 32 then (d AND b) OR (NOT d AND c)
                 else if i < 48 then b XOR c XOR d
                 else c XOR (b OR NOT d));
            g = (if i < 16 then i
                 else if i < 32 then (5 * i + 1) mod 16
                 else if i < 48 then (3 * i + 5) mod 16
                 else (7 * i) mod 16);
            t = f + a + md5_K ! i + M ! g
        in (d, b + word_rotl (md5_s ! i) t, b, c))"

definition md5_block :: "md5_state \<Rightarrow> byte list \<Rightarrow> md5_state" where
  "md5_block st block =
     (case (st, foldl (md5_step (words_of le_word32 block)) st [0..<64]) of
        ((a0, b0, c0, d0), (a, b, c, d)) \<Rightarrow> (a0 + a, b0 + b, c0 + c, d0 + d))"

definition md5_pad :: "byte list \<Rightarrow> byte list" where
  "md5_pad m = m @ [0x80] @ zero_padding (length m) @ le_bytes 8 (8 * length m)"

definition md5 :: "byte list \<Rightarrow> byte list" where
  "md5 m =
     (case foldl md5_block md5_init (blocks64 (md5_pad m)) of
        (a, b, c, d) \<Rightarrow> concat (map (\<lambda>w. le_bytes 4 (unat w)) [a, b, c, d]))"

definition md5_hex :: "string \<Rightarrow> string" where
  "md5_hex s = hex (md5 (string_bytes s))"

subsection \<open>SHA-256\<close>

definition sha256_K :: "word32 list" where
  "sha256_K = [
     0x428A2F98, 0x71374491, 0xB5C0FBCF, 0xE9B5DBA5,
     0x3956C25B, 0x59F111F1, 0x923F82A4, 0xAB1C5ED5,
     0xD807AA98, 0x12835B01, 0x243185BE, 0x550C7DC3,
     0x72BE5D74, 0x80DEB1FE, 0x9BDC06A7, 0xC19BF174,
     0xE49B69C1, 0xEFBE4786, 0x0FC19DC6, 0x240CA1CC,
     0x2DE92C6F, 0x4A7484AA, 0x5CB0A9DC, 0x76F988DA,
     0x983E5152, 0xA831C66D, 0xB00327C8, 0xBF597FC7,
     0xC6E00BF3, 0xD5A79147, 0x06CA6351, 0x14292967,
     0x27B70A85, 0x2E1B2138, 0x4D2C6DFC, 0x53380D13,
     0x650A7354, 0x766A0ABB, 0x81C2C92E, 0x92722C85,
     0xA2BFE8A1, 0xA81A664B, 0xC24B8B70, 0xC76C51A3,
     0xD192E819, 0xD6990624, 0xF40E3585, 0x106AA070,
     0x19A4C116, 0x1E376C08, 0x2748774C, 0x34B0BCB5,
     0x391C0CB3, 0x4ED8AA4A, 0x5B9CCA4F, 0x682E6FF3,
     0x748F82EE, 0x78A5636F, 0x84C87814, 0x8CC70208,
     0x90BEFFFA, 0xA4506CEB, 0xBEF9A3F7, 0xC67178F2]"

type_synonym sha256_state =
  "word32 \<times> word32 \<times> word32 \<times> word32 \<times> word32 \<times> word32 \<times> word32 \<times> word32"

definition sha256_init :: sha256_state where
  "sha256_init =
     (0x6A09E667, 0xBB67AE85, 0x3C6EF372, 0xA54FF53A,
      0x510E527F, 0x9B05688C, 0x1F83D9AB, 0x5BE0CD19)"

definition sha256_extend :: "word32 list \<Rightarrow> nat \<Rightarrow> word32 list" where
  "sha256_extend w i =
     (let x = w ! (i - 15); y = w ! (i - 2);
          s0 = word_rotr 7 x XOR word_rotr 18 x XOR drop_bit 3 x;
          s1 = word_rotr 17 y XOR word_rotr 19 y XOR drop_bit 10 y
      in w @ [w ! (i - 16) + s0 + w ! (i - 7) + s1])"

definition sha256_schedule :: "byte list \<Rightarrow> word32 list" where
  "sha256_schedule block = foldl sha256_extend (words_of be_word32 block) [16..<64]"

definition sha256_round :: "word32 list \<Rightarrow> sha256_state \<Rightarrow> nat \<Rightarrow> sha256_state" where
  "sha256_round w st i =
     (case st of (a, b, c, d, e, f, g, h) \<Rightarrow>
        let S1 = word_rotr 6 e XOR word_rotr 11 e XOR word_rotr 25 e;
            ch = (e AND f) XOR (NOT e AND g);
            temp1 = h + S1 + ch + sha256_K ! i + w ! i;
            S0 = word_rotr 2 a XOR word_rotr 13 a XOR word_rotr 22 a;
            maj = (a AND b) XOR (a AND c) XOR (b AND c);
            temp2 = S0 + maj
        in (temp1 + temp2, a, b, c, d + temp1, e, f, g))"

definition sha256_block :: "sha256_state \<Rightarrow> byte list \<Rightarrow> sha256_state" where
  "sha256_block st block =
     (case (st, foldl (sha256_round (sha256_schedule block)) st [0..<64]) of
        ((a0, b0, c0, d0, e0, f0, g0, h0), (a, b, c, d, e, f, g, h)) \<Rightarrow>
          (a0 + a, b0 + b, c0 + c, d0 + d, e0 + e, f0 + f, g0 + g, h0 + h))"

definition sha256_pad :: "byte list \<Rightarrow> byte list" where
  "sha256_pad m = m @ [0x80] @ zero_padding (length m) @ be_bytes 8 (8 * length m)"

definition sha256 :: "byte list \<Rightarrow> byte list" where
  "sha256 m =
     (case foldl sha256_block sha256_init (blocks64 (sha256_pad m)) of
        (a, b, c, d, e, f, g, h) \<Rightarrow>
          concat (map (\<lambda>w. be_bytes 4 (unat w)) [a, b, c, d, e, f, g, h]))"

definition sha256_hex :: "string \<Rightarrow> string" where
  "sha256_hex s = hex (sha256 (string_bytes s))"

section \<open>The environment\<close>

text \<open>
  What the program reads from outside its arguments: the configured client key
  (\<^verbatim>\<open>process.env.QFPAY_CLIENT_KEY\<close>), the clock (\<^verbatim>\<open>Date.now()\<close> in milliseconds and
  the UTC fields of \<^verbatim>\<open>new Date()\<close>), and the text of
  \<^verbatim>\<open>Math.random().toString(36)\<close>.
\<close>

record utc_time =
  year :: nat
  month :: nat
  day :: nat
  hours :: nat
  minutes :: nat
  seconds :: nat
  milliseconds :: nat

record environment =
  QFPAY_CLIENT_KEY :: "string option"
  date_now :: nat
  new_date :: utc_time
  random36 :: string



text \<open>The last \<open>k\<close> decimal digits of \<open>n\<close>.\<close>

definition digits :: "nat \<Rightarrow> nat \<Rightarrow> string" where
  "digits k n = map (\<lambda>i. digit_char (n div 10 ^ i)) (rev [0..<k])"





section \<open>Signing\<close>

text \<open>Step 1 of \<^verbatim>\<open>generateQFPaySignature\<close>: the keys are sorted and copied into a new object.\<close>

definition ordered_object :: "(string \<times> jsval) list \<Rightarrow> js_object" where
  "ordered_object ps =
     foldl (\<lambda>ordered key. set_prop ordered key (lookup ps key)) empty_object (sort (own_keys ps))"

text \<open>
  Step 2: the loop \<^verbatim>\<open>for (var p in ordered) if (ordered.hasOwnProperty(p)) str.push(...)\<close>
  over the keys still to visit.
\<close>

fun push_pairs :: "js_object \<Rightarrow> string list \<Rightarrow> js_error + string list" where
  "push_pairs ordered [] = Inr []"
| "push_pairs ordered (p # ps) =
     (if \<not> hasOwnProperty_callable ordered then Inl TypeError
      else if p \<in> set (map fst (own_props ordered)) then
        (case to_string (lookup (own_props ordered) p) of
           Inl e \<Rightarrow> Inl e
         | Inr v \<Rightarrow>
             (case push_pairs ordered ps of
                Inl e \<Rightarrow> Inl e
              | Inr str \<Rightarrow> Inr ((p @ ''='' @ v) # str)))
      else push_pairs ordered ps)"

definition paramString :: "jsval \<Rightarrow> js_error + string" where
  "paramString params =
     (case own_entries params of
        Inl e \<Rightarrow> Inl e
      | Inr ps \<Rightarrow>
          (let ordered = ordered_object ps in
           case push_pairs ordered (for_in_keys ordered) of
             Inl e \<Rightarrow> Inl e
           | Inr str \<Rightarrow> Inr (join ''&'' str)))"

text \<open>\<^verbatim>\<open>clientKey || process.env.QFPAY_CLIENT_KEY || ''\<close>\<close>

definition secretKey :: "environment \<Rightarrow> jsval \<Rightarrow> jsval" where
  "secretKey env clientKey =
     js_or (js_or clientKey (case QFPAY_CLIENT_KEY env of None \<Rightarrow> JUndefined | Some k \<Rightarrow> JStr k))
       (JStr [])"

text \<open>Step 3: \<^verbatim>\<open>paramString + secretKey\<close>\<close>

definition signString :: "environment \<Rightarrow> jsval \<Rightarrow> jsval \<Rightarrow> js_error + string" where
  "signString env params clientKey =
     (case paramString params of
        Inl e \<Rightarrow> Inl e
      | Inr c \<Rightarrow>
          (case to_string (secretKey env clientKey) of
             Inl e \<Rightarrow> Inl e
           | Inr k \<Rightarrow> Inr (c @ k)))"

datatype signature_result =
    Signed (signature: string) (headers: "(string \<times> jsval) list")
  | SignFailed js_error

text \<open>
  The arguments are \<open>params\<close>, \<open>appcode\<close>, \<open>algorithm\<close> and \<open>clientKey\<close>; an argument
  that is \<^verbatim>\<open>undefined\<close> takes its default, \<^verbatim>\<open>'MD5'\<close> and \<^verbatim>\<open>null\<close>.
\<close>

definition generateQFPaySignature ::
    "environment \<Rightarrow> jsval \<Rightarrow> jsval \<Rightarrow> jsval \<Rightarrow> jsval \<Rightarrow> signature_result" where
  "generateQFPaySignature env params appcode algorithm clientKey =
     (let algorithm = (if algorithm = JUndefined then JStr ''MD5'' else algorithm);
          clientKey = (if clientKey = JUndefined then JNull else clientKey)
      in case signString env params clientKey of
           Inl e \<Rightarrow> SignFailed e
         | Inr s \<Rightarrow>
             (case algorithm of
                JStr a \<Rightarrow>
                  (let signature =
                         (if toUpperCase a = ''MD5'' then md5_hex s else sha256_hex s)
                   in Signed signature
                        [(''X-QF-APPCODE'', appcode),
                         (''X-QF-SIGN'', JStr signature),
                         (''X-QF-SIGNTYPE'', JStr (toUpperCase a)),
                         (''Content-Type'', JStr ''application/x-www-form-urlencoded'')])
              | _ \<Rightarrow> SignFailed TypeError))"

section \<open>Requests to the gateway\<close>

record http_request =
  url :: string
  http_method :: string
  request_headers :: "(string \<times> jsval) list"
  request_body :: string

text \<open>
  A response of the gateway: \<open>json\<close> is what \<^verbatim>\<open>response.json()\<close> resolves to, \<open>None\<close>
  when the body is not JSON and the call rejects with a SyntaxError.
\<close>

record http_response =
  status :: nat
  statusText :: string
  json :: "jsval option"

text \<open>The network: \<^verbatim>\<open>fetch\<close> answers a request with a response or rejects.\<close>

type_synonym network = "http_request \<Rightarrow> js_error + http_response"

definition ok :: "http_response \<Rightarrow> bool" where
  "ok response = (200 \<le> status response \<and> status response \<le> 299)"

definition response_json :: "http_response \<Rightarrow> js_error + jsval" where
  "response_json response = (case json response of None \<Rightarrow> Inl SyntaxError | Some v \<Rightarrow> Inr v)"

definition is_alnum :: "char \<Rightarrow> bool" where
  "is_alnum c =
     (is_digit c \<or> (CHR ''a'' \<le> c \<and> c \<le> CHR ''z'') \<or> (CHR ''A'' \<le> c \<and> c \<le> CHR ''Z''))"

text \<open>The serialisation of \<^verbatim>\<open>URLSearchParams\<close> (application/x-www-form-urlencoded).\<close>

definition url_encode_char :: "char \<Rightarrow> string" where
  "url_encode_char c =
     (if is_alnum c \<or> c \<in> set ''*-._'' then [c]
      else if c = CHR '' '' then ''+''
      else CHR ''%'' # toUpperCase (hex_byte (of_nat (of_char c))))"

definition url_encode :: "string \<Rightarrow> string" where
  "url_encode s = concat (map url_encode_char s)"

text \<open>\<^verbatim>\<open>Object.keys(requestParams).forEach(key => formData.append(key, requestParams[key]))\<close>\<close>

fun form_append :: "(string \<times> jsval) list \<Rightarrow> string list \<Rightarrow> js_error + (string \<times> string) list" where
  "form_append requestParams [] = Inr []"
| "form_append requestParams (key # keys) =
     attempt (to_string (lookup requestParams key)) (\<lambda>v.
     attempt (form_append requestParams keys) (\<lambda>formData.
     Inr ((key, v) # formData)))"

definition form_toString :: "(string \<times> string) list \<Rightarrow> string" where
  "form_toString formData =
     join ''&'' (map (\<lambda>(k, v). url_encode k @ ''='' @ url_encode v) formData)"

definition baseURL :: string where
  "baseURL = ''https://openapi-int.qfapi.com''"

text \<open>
  The request every operation sends: the headers of the signature, then
  \<^verbatim>\<open>Content-Type\<close> and \<^verbatim>\<open>Accept\<close>, and the form as body.
\<close>

definition post_request :: "string \<Rightarrow> (string \<times> jsval) list \<Rightarrow> string \<Rightarrow> http_request" where
  "post_request endpoint signature_headers body =
     \<lparr>url = baseURL @ endpoint,
      http_method = ''POST'',
      request_headers =
        upsert ''Accept'' (JStr ''application/json'')
          (upsert ''Content-Type'' (JStr ''application/x-www-form-urlencoded'')
            (map (\<lambda>k. (k, lookup signature_headers k)) (own_keys signature_headers))),
      request_body = body\<rparr>"

text \<open>\<^verbatim>\<open>`${responseData.respcd} - ${responseData.respmsg || 'Unknown error'}`\<close>\<close>

definition gateway_error_text :: "jsval \<Rightarrow> js_error + string" where
  "gateway_error_text responseData =
     attempt (get_prop responseData ''respcd'') (\<lambda>respcd.
     attempt (to_string respcd) (\<lambda>code.
     attempt (get_prop responseData ''respmsg'') (\<lambda>respmsg.
     attempt (to_string (js_or respmsg (JStr ''Unknown error''))) (\<lambda>msg.
     Inr (code @ '' - '' @ msg)))))"

text \<open>
  \<^verbatim>\<open>parseInt\<close> of a string: leading white space, a sign, an optional \<^verbatim>\<open>0x\<close>, digits.
  The result is NaN without a digit; beyond the safe integers JavaScript rounds, and the
  model has no answer.
\<close>

definition radix_digit :: "nat \<Rightarrow> char \<Rightarrow> nat option" where
  "radix_digit radix c =
     (let v = (if is_digit c then Some (digit_value c)
               else if CHR ''a'' \<le> c \<and> c \<le> CHR ''f'' then Some (of_char c - 87)
               else if CHR ''A'' \<le> c \<and> c \<le> CHR ''F'' then Some (of_char c - 55)
               else None)
      in case v of None \<Rightarrow> None | Some d \<Rightarrow> if d < radix then Some d else None)"

definition parseInt :: "string \<Rightarrow> js_error + jsval" where
  "parseInt s =
     (let s1 = dropWhile is_space s;
          negative = (s1 \<noteq> [] \<and> hd s1 = CHR ''-'');
          s2 = (if s1 \<noteq> [] \<and> hd s1 \<in> set ''+-'' then tl s1 else s1);
          hexadecimal = (take 2 s2 = ''0x'' \<or> take 2 s2 = ''0X'');
          radix = (if hexadecimal then 16 else 10);
          s3 = (if hexadecimal then drop 2 s2 else s2);
          ds = takeWhile (\<lambda>c. radix_digit radix c \<noteq> None) s3;
          n = foldl (\<lambda>a c. radix * a + the (radix_digit radix c)) 0 ds
      in if ds = [] then Inr JNaN
         else if safe_integer (int n) then Inr (JNum (if negative then - int n else int n))
         else Inl OutsideModel)"

text \<open>\<^verbatim>\<open>parseInt(v)\<close> converts its argument to a string first.\<close>

definition js_parseInt :: "jsval \<Rightarrow> js_error + jsval" where
  "js_parseInt v = attempt (to_string v) parseInt"

section \<open>The server actions\<close>

text \<open>
  What a server action returns: \<^verbatim>\<open>{success: true, ...}\<close>, or
  \<^verbatim>\<open>{success: false, error: error.message, details: error.stack}\<close> for the exception it
  caught; \<open>Failure e\<close> stands for both the message and the stack of \<open>e\<close>.
\<close>

datatype action_result = Success jsval | Failure js_error

definition caught :: "js_error + jsval \<Rightarrow> action_result" where
  "caught r = (case r of Inl e \<Rightarrow> Failure e | Inr v \<Rightarrow> Success v)"

subsection \<open>createCustomer\<close>

definition createCustomer_requestParams :: "jsval \<Rightarrow> js_error + (string \<times> jsval) list" where
  "createCustomer_requestParams customerData =
     attempt (get_prop customerData ''name'') (\<lambda>name.
     attempt (get_prop customerData ''phone'') (\<lambda>phone.
     attempt (get_prop customerData ''email'') (\<lambda>email.
     Inr [(''name'', js_or name (JStr ''Demo Customer'')),
          (''phone'', js_or phone (JStr [])),
          (''email'', js_or email (JStr ''demo@example.com''))])))"

definition createCustomer_response ::
    "(string \<times> jsval) list \<Rightarrow> http_response \<Rightarrow> js_error + jsval" where
  "createCustomer_response requestParams response =
     attempt (response_json response) (\<lambda>responseData.
     if \<not> ok response then
       Inl (Error (''QFPay Customer API error: '' @ show_nat (status response) @ '' ''
                   @ statusText response))
     else
     attempt (get_prop responseData ''respcd'') (\<lambda>respcd.
     if respcd \<noteq> JStr ''0000'' then
       attempt (gateway_error_text responseData) (\<lambda>text.
       Inl (Error (''QFPay Customer error: '' @ text)))
     else
     attempt (get_prop responseData ''data'') (\<lambda>data.
     attempt (get_prop data ''customer_id'') (\<lambda>customer_id.
     attempt (get_prop responseData ''sysdtm'') (\<lambda>sysdtm.
     Inr (JObj [(''customer_id'', customer_id),
                (''name'', lookup requestParams ''name''),
                (''email'', lookup requestParams ''email''),
                (''phone'', lookup requestParams ''phone''),
                (''created_at'', sysdtm),
                (''respcd'', respcd),
                (''raw_response'', responseData)]))))))"

definition createCustomer ::
    "environment \<Rightarrow> network \<Rightarrow> jsval \<Rightarrow> jsval \<Rightarrow> jsval \<Rightarrow> action_result" where
  "createCustomer env fetch customerData appcode secretKey_arg =
     caught (
       attempt (createCustomer_requestParams customerData) (\<lambda>requestParams.
       case generateQFPaySignature env (JObj requestParams) appcode (JStr ''MD5'')
              (if secretKey_arg = JUndefined then JNull else secretKey_arg) of
         SignFailed e \<Rightarrow> Inl (ErrorWith ''Customer creation signature generation failed: '' e)
       | Signed sig hs \<Rightarrow>
           attempt (form_append requestParams (own_keys requestParams)) (\<lambda>formData.
           attempt (fetch (post_request ''/customer/v1/create'' hs (form_toString formData)))
             (createCustomer_response requestParams))))"

subsection \<open>createPaymentIntent\<close>









section \<open>The routes\<close>

text \<open>
  What a route answers: \<^verbatim>\<open>NextResponse.json({success: true, ...})\<close>, or
  \<^verbatim>\<open>NextResponse.json({success: false, error, details}, {status})\<close>. The details are
  absent, the JSON of the gateway, or the stack of an exception (a text chosen by the
  engine, kept here as the exception).
\<close>

datatype details = NoDetails | GatewayBody jsval | StackOf js_error

datatype route_response =
    Accepted jsval
  | Rejected (http_status: nat) (error: js_error) (details: details)

text \<open>
  \<^verbatim>\<open>NextResponse.json(body, {status})\<close>. A response can only be built with a status
  from 200 to 599, any other status throws a RangeError; and a response with a body
  cannot have one of the statuses 204, 205 and 304, which throw a TypeError.
\<close>

definition reject :: "nat \<Rightarrow> js_error \<Rightarrow> details \<Rightarrow> js_error + route_response" where
  "reject st e d =
     (if st < 200 \<or> 599 < st then Inl RangeError
      else if st \<in> {204, 205, 304} then Inl TypeError
      else Inr (Rejected st e d))"

text \<open>
  The handler's \<^verbatim>\<open>catch\<close>: whatever was thrown is answered with status 500, its
  message and its stack.
\<close>

definition catch_all :: "js_error + route_response \<Rightarrow> route_response" where
  "catch_all r =
     (case r of Inl e \<Rightarrow> Rejected 500 e (StackOf e) | Inr response \<Rightarrow> response)"

text \<open>The body of the request: \<open>None\<close> when \<^verbatim>\<open>request.json()\<close> rejects.\<close>

definition request_json :: "jsval option \<Rightarrow> js_error + jsval" where
  "request_json b = (case b of None \<Rightarrow> Inl SyntaxError | Some v \<Rightarrow> Inr v)"

subsection \<open>POST /api/qfpay/product/create\<close>

text \<open>\<^verbatim>\<open>if (body[key]) requestParams[key] = body[key].toString()\<close> for each optional key.\<close>

fun add_optional ::
    "jsval \<Rightarrow> string list \<Rightarrow> (string \<times> jsval) list \<Rightarrow> js_error + (string \<times> jsval) list" where
  "add_optional body [] requestParams = Inr requestParams"
| "add_optional body (key # keys) requestParams =
     attempt (get_prop body key) (\<lambda>v.
     if truthy v then
       attempt (to_string v) (\<lambda>s. add_optional body keys (upsert key (JStr s) requestParams))
     else add_optional body keys requestParams)"

definition product_response ::
    "(string \<times> jsval) list \<Rightarrow> http_response \<Rightarrow> js_error + route_response" where
  "product_response requestParams response =
     attempt (response_json response) (\<lambda>responseData.
     if \<not> ok response then
       reject (status response)
         (Error (''QFPay Product API error: '' @ show_nat (status response) @ '' ''
                 @ statusText response))
         (GatewayBody responseData)
     else
     attempt (get_prop responseData ''respcd'') (\<lambda>respcd.
     if respcd \<noteq> JStr ''0000'' then
       attempt (gateway_error_text responseData) (\<lambda>text.
       reject 400 (Error (''QFPay Product error: '' @ text)) (GatewayBody responseData))
     else
     attempt (get_prop responseData ''data'') (\<lambda>data.
     attempt (get_prop data ''product_id'') (\<lambda>product_id.
     attempt (js_parseInt (lookup requestParams ''txamt'')) (\<lambda>txamt.
     attempt (if truthy (lookup requestParams ''interval_count'')
              then js_parseInt (lookup requestParams ''interval_count'')
              else Inr JNull) (\<lambda>interval_count.
     attempt (get_prop responseData ''sysdtm'') (\<lambda>sysdtm.
     Inr (Accepted (JObj
       [(''product_id'', product_id),
        (''name'', lookup requestParams ''name''),
        (''type'', js_or (lookup requestParams ''type'') (JStr ''onetime'')),
        (''txamt'', txamt),
        (''txcurrcd'', lookup requestParams ''txcurrcd''),
        (''description'', js_or (lookup requestParams ''description'') JNull),
        (''interval'', js_or (lookup requestParams ''interval'') JNull),
        (''interval_count'', interval_count),
        (''usage_type'', js_or (lookup requestParams ''usage_type'') (JStr ''licensed'')),
        (''created_at'', sysdtm),
        (''raw_response'', responseData)])))))))))"

text \<open>
  The handler up to its call of the gateway: it returns early with a response
  (\<open>Inr (Inl response)\<close>), or has the parameters and the request to send.
\<close>

definition product_create_request ::
    "environment \<Rightarrow> jsval
     \<Rightarrow> js_error + (route_response + (string \<times> jsval) list \<times> http_request)" where
  "product_create_request env body =
     attempt (get_prop body ''name'') (\<lambda>name.
     attempt (get_prop body ''txamt'') (\<lambda>txamt.
     attempt (get_prop body ''txcurrcd'') (\<lambda>txcurrcd.
     attempt (get_prop body ''appcode'') (\<lambda>appcode.
     if \<not> truthy name \<or> \<not> truthy txamt \<or> \<not> truthy txcurrcd \<or> \<not> truthy appcode then
       attempt (reject 400 (Error ''Missing required fields: name, txamt, txcurrcd, appcode'')
                  NoDetails) (\<lambda>response. Inr (Inl response))
     else
     attempt (to_string name) (\<lambda>name_text.
     attempt (to_string txamt) (\<lambda>txamt_text.
     attempt (to_string txcurrcd) (\<lambda>txcurrcd_text.
     attempt (add_optional body
                [''type'', ''description'', ''interval'', ''interval_count'', ''usage_type'']
                [(''name'', JStr name_text), (''txamt'', JStr txamt_text),
                 (''txcurrcd'', JStr txcurrcd_text)]) (\<lambda>requestParams.
     attempt (get_prop body ''secretKey'') (\<lambda>secret.
     case generateQFPaySignature env (JObj requestParams) appcode (JStr ''MD5'')
            (js_or secret JNull) of
       SignFailed e \<Rightarrow>
         attempt (reject 500 (ErrorWith ''Product creation signature generation failed: '' e)
                    NoDetails) (\<lambda>response. Inr (Inl response))
     | Signed sig hs \<Rightarrow>
         attempt (form_append requestParams (own_keys requestParams)) (\<lambda>formData.
         Inr (Inr (requestParams,
                   post_request ''/product/v1/create'' hs (form_toString formData)))))))))))))"

definition product_create_POST ::
    "environment \<Rightarrow> network \<Rightarrow> jsval option \<Rightarrow> route_response" where
  "product_create_POST env fetch request_body_json =
     catch_all (
       attempt (request_json request_body_json) (\<lambda>body.
       attempt (product_create_request env body) (\<lambda>prepared.
       case prepared of
         Inl response \<Rightarrow> Inr response
       | Inr (requestParams, request) \<Rightarrow>
           attempt (fetch request) (product_response requestParams))))"

subsection \<open>POST /api/qfpay/subscription/create\<close>

text \<open>
  The loop that validates each product: \<open>Inr False\<close> when it finds an entry without a
  product id or with a quantity that is not a number, and returns the 400 response.
\<close>

definition is_number :: "jsval \<Rightarrow> bool" where
  "is_number v = (case v of JNum _ \<Rightarrow> True | JNaN \<Rightarrow> True | _ \<Rightarrow> False)"

fun products_valid :: "jsval list \<Rightarrow> js_error + bool" where
  "products_valid [] = Inr True"
| "products_valid (product # products) =
     attempt (get_prop product ''product_id'') (\<lambda>product_id.
     if \<not> truthy product_id then Inr False
     else
     attempt (get_prop product ''quantity'') (\<lambda>quantity.
     if \<not> is_number quantity then Inr False else products_valid products))"

text \<open>
  The handler up to the end of its validation (lines 15 to 42). What follows prepares the
  parameters, signs them and calls the gateway; it is the argument \<open>continue\<close>, applied to
  the body once the validation has passed.
\<close>

definition subscription_create_POST ::
    "(jsval \<Rightarrow> js_error + route_response) \<Rightarrow> jsval option \<Rightarrow> route_response" where
  "subscription_create_POST continue request_body_json =
     catch_all (
       attempt (request_json request_body_json) (\<lambda>body.
       attempt (get_prop body ''customer_id'') (\<lambda>customer_id.
       attempt (get_prop body ''token_id'') (\<lambda>token_id.
       attempt (get_prop body ''products'') (\<lambda>products.
       attempt (get_prop body ''appcode'') (\<lambda>appcode.
       if \<not> truthy customer_id \<or> \<not> truthy token_id \<or> \<not> truthy products \<or> \<not> truthy appcode then
         reject 400
           (Error ''Missing required fields: customer_id, token_id, products, appcode'')
           NoDetails
       else
         (case products of
            JArr entries \<Rightarrow>
              if entries = [] then
                reject 400 (Error ''Products must be a non-empty array'') NoDetails
              else
                attempt (products_valid entries) (\<lambda>valid.
                if \<not> valid then
                  reject 400
                    (Error ''Each product must have product_id (string) and quantity (number)'')
                    NoDetails
                else continue body)
          | _ \<Rightarrow> reject 400 (Error ''Products must be a non-empty array'') NoDetails)))))))"

section \<open>The specification's words\<close>

text \<open>
  The canonical string as the specification describes it: all keys sorted ascending by
  byte value, each rendered as \<^verbatim>\<open>key=value\<close>, joined with \<^verbatim>\<open>&\<close>.
\<close>

definition value_text :: "jsval \<Rightarrow> string" where
  "value_text v = (case to_string v of Inr s \<Rightarrow> s | Inl _ \<Rightarrow> [])"

definition canonicalize :: "(string \<times> jsval) list \<Rightarrow> string" where
  "canonicalize P =
     join ''&'' (map (\<lambda>k. k @ ''='' @ value_text (lookup P k)) (sort (map fst P)))"


text \<open>
  A scalar is a value that is neither an array nor an object; as a number it is NaN or a
  safe integer.
\<close>

definition is_scalar :: "jsval \<Rightarrow> bool" where
  "is_scalar v =
     (case v of JArr _ \<Rightarrow> False | JObj _ \<Rightarrow> False | JNum n \<Rightarrow> safe_integer n | _ \<Rightarrow> True)"


text \<open>The header names of the specification's section on external interfaces.\<close>

definition spec_header_names :: "string list" where
  "spec_header_names =
     [''X-Auth-AppCode'', ''X-Auth-Signature'', ''X-Auth-SignatureType'', ''Content-Type'']"

section \<open>Sample inputs\<close>

definition sample_env :: environment where
  "sample_env =
     \<lparr>QFPAY_CLIENT_KEY = None,
      date_now = 1700000000000,
      new_date = \<lparr>year = 2024, month = 3, day = 7, hours = 9, minutes = 5, seconds = 1,
                  milliseconds = 42\<rparr>,
      random36 = ''0.4fzyo82mvyr''\<rparr>"

text \<open>The parameters of the specification's end-to-end example, \<^verbatim>\<open>{b: "2", a: "1"}\<close>.\<close>

definition sample_params :: jsval where
  "sample_params = JObj [(''b'', JStr ''2''), (''a'', JStr ''1'')]"


section \<open>Basic facts\<close>

lemma attempt_Inl [simp]: "attempt (Inl e) f = Inl e"
  by (simp add: attempt_def)

lemma attempt_Inr [simp]: "attempt (Inr x) f = f x"
  by (simp add: attempt_def)

lemmas key_order_defs =
  own_keys_def is_array_index_def is_digit_def decimal_value_def digit_value_def

lemmas object_defs =
  ordered_object_def empty_object_def set_prop_def lookup_def for_in_keys_def
  hasOwnProperty_callable_def own_entries_def

lemma toUpperCase_examples:
  "toUpperCase ''md5'' = ''MD5''" "toUpperCase ''MD5'' = ''MD5''"
  "toUpperCase ''SHA-256'' = ''SHA-256''" "toUpperCase ''sha_256'' = ''SHA_256''"
  "toUpperCase ''foo'' = ''FOO''"
  by (simp_all add: toUpperCase_def upper_char_def)

section \<open>The digests are hexadecimal strings of fixed length\<close>

lemma length_hex: "length (hex bs) = 2 * length bs"
  by (induction bs) (simp_all add: hex_def hex_byte_def)

lemma hex_digit_range: "hex_digit n \<in> set ''0123456789abcdef''"
proof -
  have "n mod 16 < length ''0123456789abcdef''" by simp
  then show ?thesis unfolding hex_digit_def by (rule nth_mem)
qed

lemma set_hex: "set (hex bs) \<subseteq> set ''0123456789abcdef''"
  using hex_digit_range by (auto simp: hex_def hex_byte_def)

lemma length_md5: "length (md5 m) = 16"
  by (simp add: md5_def le_bytes_def split: prod.split)

lemma length_sha256: "length (sha256 m) = 32"
  by (simp add: sha256_def be_bytes_def le_bytes_def split: prod.split)

lemma length_md5_hex: "length (md5_hex s) = 32"
  by (simp add: md5_hex_def length_hex length_md5)

lemma length_sha256_hex: "length (sha256_hex s) = 64"
  by (simp add: sha256_hex_def length_hex length_sha256)

section \<open>The signature\<close>

lemma secretKey_default:
  "secretKey env (if clientKey = JUndefined then JNull else clientKey) = secretKey env clientKey"
  by (simp add: secretKey_def js_or_def truthy_def)

lemma signString_default:
  "signString env params (if clientKey = JUndefined then JNull else clientKey)
     = signString env params clientKey"
  by (simp add: signString_def secretKey_default cong: sum.case_cong)

lemma generateQFPaySignature_JStr:
  assumes "signString env params clientKey = Inr s"
  shows "generateQFPaySignature env params appcode (JStr a) clientKey =
           Signed (if toUpperCase a = ''MD5'' then md5_hex s else sha256_hex s)
             [(''X-QF-APPCODE'', appcode),
              (''X-QF-SIGN'', JStr (if toUpperCase a = ''MD5'' then md5_hex s else sha256_hex s)),
              (''X-QF-SIGNTYPE'', JStr (toUpperCase a)),
              (''Content-Type'', JStr ''application/x-www-form-urlencoded'')]"
  using assms by (simp add: generateQFPaySignature_def signString_default Let_def)

lemma paramString_sample: "paramString sample_params = Inr ''a=1&b=2''"
  by (simp add: sample_params_def paramString_def key_order_defs object_defs)

lemma signString_sample: "signString env sample_params (JStr ''k'') = Inr ''a=1&b=2k''"
  by (simp add: signString_def paramString_sample secretKey_def js_or_def truthy_def)

lemma signString_sample_no_key: "signString sample_env sample_params JNull = Inr ''a=1&b=2''"
  by (simp add: signString_def paramString_sample secretKey_def js_or_def truthy_def
      sample_env_def)

text \<open>
  Claim C2. Given the canonical string \<open>c\<close> of the parameters and the secret \<open>s\<close>, and an
  algorithm whose upper-casing is \<^verbatim>\<open>MD5\<close> or \<^verbatim>\<open>SHA256\<close>, the signature is the MD5 or
  SHA-256 digest of \<open>c\<close> followed directly by \<open>s\<close>. It is a function of \<open>c\<close>, \<open>s\<close> and
  the algorithm alone, 32 characters long for MD5 and 64 for SHA-256, all of them
  lower-case hexadecimal digits. For the parameters \<^verbatim>\<open>{b: "2", a: "1"}\<close> and the secret
  \<^verbatim>\<open>k\<close> the canonical string is \<^verbatim>\<open>a=1&b=2\<close> and the string hashed is \<^verbatim>\<open>a=1&b=2k\<close>.
\<close>

theorem signature_is_hex_digest:
  assumes "paramString params = Inr c"
    and "to_string (secretKey env clientKey) = Inr s"
    and "toUpperCase a = ''MD5'' \<or> toUpperCase a = ''SHA256''"
  shows "\<exists>sig.
      generateQFPaySignature env params appcode (JStr a) clientKey =
        Signed sig
          [(''X-QF-APPCODE'', appcode), (''X-QF-SIGN'', JStr sig),
           (''X-QF-SIGNTYPE'', JStr (toUpperCase a)),
           (''Content-Type'', JStr ''application/x-www-form-urlencoded'')]
      \<and> sig = (if toUpperCase a = ''MD5'' then md5_hex (c @ s) else sha256_hex (c @ s))
      \<and> length sig = (if toUpperCase a = ''MD5'' then 32 else 64)
      \<and> set sig \<subseteq> set ''0123456789abcdef''
      \<and> paramString (JObj [(''b'', JStr ''2''), (''a'', JStr ''1'')]) = Inr ''a=1&b=2''
      \<and> signString env (JObj [(''b'', JStr ''2''), (''a'', JStr ''1'')]) (JStr ''k'')
            = Inr ''a=1&b=2k''
      \<and> signature (generateQFPaySignature env (JObj [(''b'', JStr ''2''), (''a'', JStr ''1'')])
                      appcode (JStr ''MD5'') (JStr ''k''))
            = md5_hex ''a=1&b=2k''"
proof -
  let ?P = "JObj [(''b'', JStr ''2''), (''a'', JStr ''1'')]"
  define sig where
    "sig = (if toUpperCase a = ''MD5'' then md5_hex (c @ s) else sha256_hex (c @ s))"
  have sign: "signString env params clientKey = Inr (c @ s)"
    using assms(1,2) by (simp add: signString_def)
  have gen: "generateQFPaySignature env params appcode (JStr a) clientKey =
        Signed sig
          [(''X-QF-APPCODE'', appcode), (''X-QF-SIGN'', JStr sig),
           (''X-QF-SIGNTYPE'', JStr (toUpperCase a)),
           (''Content-Type'', JStr ''application/x-www-form-urlencoded'')]"
    unfolding sig_def by (rule generateQFPaySignature_JStr [OF sign])
  have len: "length sig = (if toUpperCase a = ''MD5'' then 32 else 64)"
    by (simp add: sig_def length_md5_hex length_sha256_hex)
  have digits: "set sig \<subseteq> set ''0123456789abcdef''"
    unfolding sig_def md5_hex_def sha256_hex_def
    by (simp only: set_hex simp_thms split: if_split)
  have canonical: "paramString ?P = Inr ''a=1&b=2''"
    using paramString_sample by (simp add: sample_params_def)
  have example: "signString env ?P (JStr ''k'') = Inr ''a=1&b=2k''"
    using signString_sample by (simp add: sample_params_def)
  have pinned: "signature (generateQFPaySignature env ?P appcode (JStr ''MD5'') (JStr ''k''))
          = md5_hex ''a=1&b=2k''"
    by (simp add: generateQFPaySignature_JStr [OF example] toUpperCase_examples)
  show ?thesis
    by (intro exI [of _ sig] conjI gen sig_def len digits canonical example pinned)
qed

theorem signature_is_hex_digest_witness:
  "paramString sample_params = Inr ''a=1&b=2''
   \<and> to_string (secretKey sample_env (JStr ''k'')) = Inr ''k''
   \<and> (toUpperCase ''md5'' = ''MD5'' \<or> toUpperCase ''md5'' = ''SHA256'')
   \<and> generateQFPaySignature sample_env sample_params (JStr ''app'') (JStr ''md5'') (JStr ''k'')
       = Signed (md5_hex ''a=1&b=2k'')
          [(''X-QF-APPCODE'', JStr ''app''), (''X-QF-SIGN'', JStr (md5_hex ''a=1&b=2k'')),
           (''X-QF-SIGNTYPE'', JStr ''MD5''),
           (''Content-Type'', JStr ''application/x-www-form-urlencoded'')]
   \<and> length (md5_hex ''a=1&b=2k'') = 32"
proof -
  have h1: "paramString sample_params = Inr ''a=1&b=2''"
    by (rule paramString_sample)
  have h2: "to_string (secretKey sample_env (JStr ''k'')) = Inr ''k''"
    by (simp add: secretKey_def js_or_def truthy_def)
  have h3: "toUpperCase ''md5'' = ''MD5'' \<or> toUpperCase ''md5'' = ''SHA256''"
    by (simp add: toUpperCase_examples)
  show ?thesis
    using signature_is_hex_digest [OF h1 h2 h3, of "JStr ''app''"] h1 h2 h3
    by (auto simp add: toUpperCase_examples)
qed

text \<open>
  Claim C7. When the caller supplies no client key (a falsy \<open>clientKey\<close>) and none is
  configured, the secret is the empty string; for parameters that have a canonical string
  \<open>c\<close> the signature is still generated, and the string hashed is \<open>c\<close> itself.
\<close>

theorem empty_secret_still_signs:
  assumes "\<not> truthy clientKey"
    and "QFPAY_CLIENT_KEY env = None \<or> QFPAY_CLIENT_KEY env = Some []"
    and "paramString params = Inr c"
    and "algorithm = JUndefined \<and> a = ''MD5'' \<or> algorithm = JStr a"
  shows "secretKey env clientKey = JStr []
     \<and> signString env params clientKey = Inr c
     \<and> (\<exists>hs. generateQFPaySignature env params appcode algorithm clientKey =
            Signed (if toUpperCase a = ''MD5'' then md5_hex c else sha256_hex c) hs)"
proof -
  have key: "secretKey env clientKey = JStr []"
    using assms(1,2) by (auto simp: secretKey_def js_or_def truthy_def)
  then have sign: "signString env params clientKey = Inr c"
    using assms(3) by (simp add: signString_def)
  have "generateQFPaySignature env params appcode algorithm clientKey =
          generateQFPaySignature env params appcode (JStr a) clientKey"
    using assms(4) by (auto simp: generateQFPaySignature_def)
  with key sign show ?thesis
    by (simp add: generateQFPaySignature_JStr [OF sign])
qed

theorem empty_secret_still_signs_witness:
  "\<not> truthy JNull
   \<and> (QFPAY_CLIENT_KEY sample_env = None \<or> QFPAY_CLIENT_KEY sample_env = Some [])
   \<and> paramString sample_params = Inr ''a=1&b=2''
   \<and> secretKey sample_env JNull = JStr []
   \<and> signString sample_env sample_params JNull = Inr ''a=1&b=2''
   \<and> (\<exists>hs. generateQFPaySignature sample_env sample_params (JStr ''app'') JUndefined JNull =
          Signed (md5_hex ''a=1&b=2'') hs)"
proof -
  have h1: "\<not> truthy JNull"
    by (simp add: truthy_def)
  have h2: "QFPAY_CLIENT_KEY sample_env = None \<or> QFPAY_CLIENT_KEY sample_env = Some []"
    by (simp add: sample_env_def)
  have h4: "JUndefined = JUndefined \<and> ''MD5'' = ''MD5'' \<or> JUndefined = JStr ''MD5''"
    by simp
  show ?thesis
    using empty_secret_still_signs [OF h1 h2 paramString_sample h4, of "JStr ''app''"]
      h1 h2 paramString_sample
    by (simp add: toUpperCase_examples)
qed

text \<open>
  Claim C9. An algorithm string whose upper-casing is not \<^verbatim>\<open>MD5\<close>, such as
  \<^verbatim>\<open>SHA-256\<close>, \<^verbatim>\<open>sha_256\<close> or \<^verbatim>\<open>foo\<close>, raises no error: the signature is the SHA-256
  digest, and the header \<^verbatim>\<open>X-QF-SIGNTYPE\<close> carries the upper-cased string as given.
\<close>

theorem unrecognised_algorithm_is_sha256:
  assumes "toUpperCase a \<noteq> ''MD5''"
    and "signString env params clientKey = Inr s"
  shows "generateQFPaySignature env params appcode (JStr a) clientKey =
           Signed (sha256_hex s)
             [(''X-QF-APPCODE'', appcode), (''X-QF-SIGN'', JStr (sha256_hex s)),
              (''X-QF-SIGNTYPE'', JStr (toUpperCase a)),
              (''Content-Type'', JStr ''application/x-www-form-urlencoded'')]
     \<and> toUpperCase ''SHA-256'' \<noteq> ''MD5'' \<and> toUpperCase ''sha_256'' \<noteq> ''MD5''
     \<and> toUpperCase ''foo'' \<noteq> ''MD5''"
  using assms by (simp add: generateQFPaySignature_JStr toUpperCase_examples)

theorem unrecognised_algorithm_is_sha256_witness:
  "toUpperCase ''foo'' \<noteq> ''MD5''
   \<and> signString sample_env sample_params (JStr ''k'') = Inr ''a=1&b=2k''
   \<and> generateQFPaySignature sample_env sample_params (JStr ''app'') (JStr ''foo'') (JStr ''k'') =
        Signed (sha256_hex ''a=1&b=2k'')
          [(''X-QF-APPCODE'', JStr ''app''), (''X-QF-SIGN'', JStr (sha256_hex ''a=1&b=2k'')),
           (''X-QF-SIGNTYPE'', JStr ''FOO''),
           (''Content-Type'', JStr ''application/x-www-form-urlencoded'')]"
proof -
  have h1: "toUpperCase ''foo'' \<noteq> ''MD5''"
    by (simp add: toUpperCase_examples)
  show ?thesis
    using unrecognised_algorithm_is_sha256 [OF h1 signString_sample, of sample_env "JStr ''app''"]
      h1 signString_sample [of sample_env]
    by (simp add: toUpperCase_examples)
qed

text \<open>
  Claim C3, as amended. A successful signature generation returns exactly four headers,
  in this order: \<^verbatim>\<open>X-QF-APPCODE\<close> with the caller's appcode unchanged,
  \<^verbatim>\<open>X-QF-SIGN\<close> with the signature, \<^verbatim>\<open>X-QF-SIGNTYPE\<close> with the upper-cased algorithm
  string of the caller (\<^verbatim>\<open>MD5\<close> when none was given), and \<^verbatim>\<open>Content-Type\<close> with
  \<^verbatim>\<open>application/x-www-form-urlencoded\<close>.
\<close>

theorem auth_headers:
  assumes "generateQFPaySignature env params appcode algorithm clientKey = Signed sig hs"
  shows "\<exists>a. (algorithm = JStr a \<or> algorithm = JUndefined \<and> a = ''MD5'')
     \<and> hs = [(''X-QF-APPCODE'', appcode), (''X-QF-SIGN'', JStr sig),
             (''X-QF-SIGNTYPE'', JStr (toUpperCase a)),
             (''Content-Type'', JStr ''application/x-www-form-urlencoded'')]"
  using assms
  by (auto simp: generateQFPaySignature_def Let_def split: sum.splits jsval.splits if_splits)

lemma sample_signature:
  "generateQFPaySignature sample_env sample_params (JStr ''app'') (JStr ''MD5'') (JStr ''k'') =
     Signed (md5_hex ''a=1&b=2k'')
       [(''X-QF-APPCODE'', JStr ''app''), (''X-QF-SIGN'', JStr (md5_hex ''a=1&b=2k'')),
        (''X-QF-SIGNTYPE'', JStr ''MD5''),
        (''Content-Type'', JStr ''application/x-www-form-urlencoded'')]"
  by (simp add: generateQFPaySignature_JStr [OF signString_sample] toUpperCase_examples)

theorem auth_headers_witness:
  "generateQFPaySignature sample_env sample_params (JStr ''app'') (JStr ''MD5'') (JStr ''k'') =
     Signed (md5_hex ''a=1&b=2k'')
       [(''X-QF-APPCODE'', JStr ''app''), (''X-QF-SIGN'', JStr (md5_hex ''a=1&b=2k'')),
        (''X-QF-SIGNTYPE'', JStr ''MD5''),
        (''Content-Type'', JStr ''application/x-www-form-urlencoded'')]
   \<and> (\<exists>a. (JStr ''MD5'' = JStr a \<or> JStr ''MD5'' = JUndefined \<and> a = ''MD5'')
        \<and> [(''X-QF-APPCODE'', JStr ''app''), (''X-QF-SIGN'', JStr (md5_hex ''a=1&b=2k'')),
            (''X-QF-SIGNTYPE'', JStr ''MD5''),
            (''Content-Type'', JStr ''application/x-www-form-urlencoded'')]
         = [(''X-QF-APPCODE'', JStr ''app''), (''X-QF-SIGN'', JStr (md5_hex ''a=1&b=2k'')),
            (''X-QF-SIGNTYPE'', JStr (toUpperCase a)),
            (''Content-Type'', JStr ''application/x-www-form-urlencoded'')])"
  using auth_headers [OF sample_signature] sample_signature by simp

text \<open>
  The claim as the specification words it fails: the names of the headers returned for
  the sample parameters are not the four names of the specification.
\<close>

theorem auth_headers_counterexample:
  "map fst (headers (generateQFPaySignature sample_env sample_params (JStr ''app'')
              (JStr ''MD5'') (JStr ''k'')))
     = [''X-QF-APPCODE'', ''X-QF-SIGN'', ''X-QF-SIGNTYPE'', ''Content-Type'']
   \<and> map fst (headers (generateQFPaySignature sample_env sample_params (JStr ''app'')
              (JStr ''MD5'') (JStr ''k'')))
     \<noteq> spec_header_names"
  by (simp add: sample_signature spec_header_names_def)

section \<open>Reading properties\<close>

lemma get_prop_total: "\<not> is_nullish v \<Longrightarrow> \<exists>x. get_prop v k = Inr x"
  by (cases v) (simp_all add: get_prop_def is_nullish_def)

lemma get_prop_Inr_not_nullish: "get_prop v k = Inr x \<Longrightarrow> \<not> is_nullish v"
  by (cases v) (simp_all add: get_prop_def is_nullish_def)

lemma js_or_not_nullish: "\<not> is_nullish d \<Longrightarrow> \<not> is_nullish (js_or v d)"
  by (cases v) (simp_all add: js_or_def truthy_def is_nullish_def)

section \<open>Validation in the product route\<close>

text \<open>
  Claim C10. A request to create a product whose body has a falsy \<open>name\<close>, \<open>txamt\<close>,
  \<open>txcurrcd\<close> or \<open>appcode\<close> (the number 0, the empty string, null, or no such
  property) is answered with status 400 and the message about missing required fields,
  whatever the network would have answered: the gateway is never called. A zero amount
  given explicitly is rejected like a missing one.
\<close>

theorem product_create_rejects_falsy_fields:
  assumes "get_prop body k = Inr v"
    and "k \<in> set [''name'', ''txamt'', ''txcurrcd'', ''appcode'']"
    and "\<not> truthy v"
  shows "product_create_POST env fetch (Some body) =
           Rejected 400 (Error ''Missing required fields: name, txamt, txcurrcd, appcode'')
             NoDetails
     \<and> \<not> truthy (JNum 0) \<and> \<not> truthy (JStr []) \<and> \<not> truthy JNull \<and> \<not> truthy JUndefined"
proof -
  have nn: "\<not> is_nullish body"
    using assms(1) by (rule get_prop_Inr_not_nullish)
  obtain name where name: "get_prop body ''name'' = Inr name"
    using get_prop_total [OF nn] by blast
  obtain txamt where txamt: "get_prop body ''txamt'' = Inr txamt"
    using get_prop_total [OF nn] by blast
  obtain txcurrcd where txcurrcd: "get_prop body ''txcurrcd'' = Inr txcurrcd"
    using get_prop_total [OF nn] by blast
  obtain appcode where appcode: "get_prop body ''appcode'' = Inr appcode"
    using get_prop_total [OF nn] by blast
  have "\<not> truthy name \<or> \<not> truthy txamt \<or> \<not> truthy txcurrcd \<or> \<not> truthy appcode"
    using assms name txamt txcurrcd appcode by auto
  then show ?thesis
    by (auto simp: product_create_POST_def product_create_request_def request_json_def
        name txamt txcurrcd appcode reject_def catch_all_def truthy_def)
qed

theorem product_create_rejects_falsy_fields_witness:
  "get_prop (JObj [(''name'', JStr ''Plan''), (''txamt'', JNum 0), (''txcurrcd'', JStr ''HKD''),
                   (''appcode'', JStr ''A'')]) ''txamt'' = Inr (JNum 0)
   \<and> ''txamt'' \<in> set [''name'', ''txamt'', ''txcurrcd'', ''appcode'']
   \<and> \<not> truthy (JNum 0)
   \<and> product_create_POST sample_env (\<lambda>request. Inl TypeError)
        (Some (JObj [(''name'', JStr ''Plan''), (''txamt'', JNum 0), (''txcurrcd'', JStr ''HKD''),
                     (''appcode'', JStr ''A'')])) =
        Rejected 400 (Error ''Missing required fields: name, txamt, txcurrcd, appcode'')
          NoDetails"
proof -
  let ?body = "JObj [(''name'', JStr ''Plan''), (''txamt'', JNum 0), (''txcurrcd'', JStr ''HKD''),
                     (''appcode'', JStr ''A'')]"
  have h1: "get_prop ?body ''txamt'' = Inr (JNum 0)"
    by (simp add: get_prop_def lookup_def)
  have h2: "''txamt'' \<in> set [''name'', ''txamt'', ''txcurrcd'', ''appcode'']"
    by simp
  have h3: "\<not> truthy (JNum 0)"
    by (simp add: truthy_def)
  show ?thesis
    using product_create_rejects_falsy_fields [OF h1 h2 h3] h1 h2 h3 by simp
qed

section \<open>The parameters of a customer\<close>

text \<open>
  Claim C8. For customer data that is not null or undefined, the parameters signed by
  \<open>createCustomer\<close> are exactly \<open>name\<close>, \<open>phone\<close> and \<open>email\<close>, in this order; a
  property of the caller that is absent or otherwise falsy is replaced by its default
  (\<^verbatim>\<open>Demo Customer\<close>, the empty string, \<^verbatim>\<open>demo@example.com\<close>), so no value is null
  or undefined.
\<close>

theorem customer_params_have_defaults:
  assumes "\<not> is_nullish customerData"
  shows "\<exists>name phone email.
      get_prop customerData ''name'' = Inr name
    \<and> get_prop customerData ''phone'' = Inr phone
    \<and> get_prop customerData ''email'' = Inr email
    \<and> createCustomer_requestParams customerData =
        Inr [(''name'', if truthy name then name else JStr ''Demo Customer''),
             (''phone'', if truthy phone then phone else JStr []),
             (''email'', if truthy email then email else JStr ''demo@example.com'')]
    \<and> \<not> is_nullish (if truthy name then name else JStr ''Demo Customer'')
    \<and> \<not> is_nullish (if truthy phone then phone else JStr [])
    \<and> \<not> is_nullish (if truthy email then email else JStr ''demo@example.com'')
    \<and> createCustomer env fetch customerData appcode secret =
        caught (
          case generateQFPaySignature env
                 (JObj [(''name'', if truthy name then name else JStr ''Demo Customer''),
                        (''phone'', if truthy phone then phone else JStr []),
                        (''email'', if truthy email then email else JStr ''demo@example.com'')])
                 appcode (JStr ''MD5'') (if secret = JUndefined then JNull else secret) of
            SignFailed e \<Rightarrow> Inl (ErrorWith ''Customer creation signature generation failed: '' e)
          | Signed sig hs \<Rightarrow>
              attempt (form_append
                         [(''name'', if truthy name then name else JStr ''Demo Customer''),
                          (''phone'', if truthy phone then phone else JStr []),
                          (''email'', if truthy email then email else JStr ''demo@example.com'')]
                         [''name'', ''phone'', ''email'']) (\<lambda>formData.
              attempt (fetch (post_request ''/customer/v1/create'' hs (form_toString formData)))
                (createCustomer_response
                   [(''name'', if truthy name then name else JStr ''Demo Customer''),
                    (''phone'', if truthy phone then phone else JStr []),
                    (''email'', if truthy email then email else JStr ''demo@example.com'')])))"
proof -
  obtain name where name: "get_prop customerData ''name'' = Inr name"
    using get_prop_total [OF assms] by blast
  obtain phone where phone: "get_prop customerData ''phone'' = Inr phone"
    using get_prop_total [OF assms] by blast
  obtain email where email: "get_prop customerData ''email'' = Inr email"
    using get_prop_total [OF assms] by blast
  have params: "createCustomer_requestParams customerData =
        Inr [(''name'', if truthy name then name else JStr ''Demo Customer''),
             (''phone'', if truthy phone then phone else JStr []),
             (''email'', if truthy email then email else JStr ''demo@example.com'')]"
    by (simp add: createCustomer_requestParams_def name phone email js_or_def)
  have keys: "own_keys [(''name'', a), (''phone'', b), (''email'', c)]
                = [''name'', ''phone'', ''email'']" for a b c :: jsval
    by (simp add: key_order_defs)
  have n1: "\<not> is_nullish (if truthy name then name else JStr ''Demo Customer'')"
    by (cases name) (simp_all add: truthy_def is_nullish_def)
  have n2: "\<not> is_nullish (if truthy phone then phone else JStr [])"
    by (cases phone) (simp_all add: truthy_def is_nullish_def)
  have n3: "\<not> is_nullish (if truthy email then email else JStr ''demo@example.com'')"
    by (cases email) (simp_all add: truthy_def is_nullish_def)
  have action: "createCustomer env fetch customerData appcode secret =
        caught (
          case generateQFPaySignature env
                 (JObj [(''name'', if truthy name then name else JStr ''Demo Customer''),
                        (''phone'', if truthy phone then phone else JStr []),
                        (''email'', if truthy email then email else JStr ''demo@example.com'')])
                 appcode (JStr ''MD5'') (if secret = JUndefined then JNull else secret) of
            SignFailed e \<Rightarrow> Inl (ErrorWith ''Customer creation signature generation failed: '' e)
          | Signed sig hs \<Rightarrow>
              attempt (form_append
                         [(''name'', if truthy name then name else JStr ''Demo Customer''),
                          (''phone'', if truthy phone then phone else JStr []),
                          (''email'', if truthy email then email else JStr ''demo@example.com'')]
                         [''name'', ''phone'', ''email'']) (\<lambda>formData.
              attempt (fetch (post_request ''/customer/v1/create'' hs (form_toString formData)))
                (createCustomer_response
                   [(''name'', if truthy name then name else JStr ''Demo Customer''),
                    (''phone'', if truthy phone then phone else JStr []),
                    (''email'', if truthy email then email else JStr ''demo@example.com'')])))"
    unfolding createCustomer_def params attempt_Inr keys ..
  show ?thesis
    by (rule exI [of _ name], rule exI [of _ phone], rule exI [of _ email])
      (intro conjI name phone email params n1 n2 n3 action)
qed

theorem customer_params_have_defaults_witness:
  "\<not> is_nullish (JObj [(''name'', JStr ''Ann''), (''phone'', JNull)])
   \<and> createCustomer_requestParams (JObj [(''name'', JStr ''Ann''), (''phone'', JNull)]) =
        Inr [(''name'', JStr ''Ann''), (''phone'', JStr []), (''email'', JStr ''demo@example.com'')]"
proof -
  let ?data = "JObj [(''name'', JStr ''Ann''), (''phone'', JNull)]"
  have h: "\<not> is_nullish ?data"
    by (simp add: is_nullish_def)
  from customer_params_have_defaults [OF h, of sample_env "\<lambda>request. Inl TypeError" JNull JNull]
  obtain name phone email where
    name: "get_prop ?data ''name'' = Inr name" and
    phone: "get_prop ?data ''phone'' = Inr phone" and
    email: "get_prop ?data ''email'' = Inr email" and
    params: "createCustomer_requestParams ?data =
        Inr [(''name'', if truthy name then name else JStr ''Demo Customer''),
             (''phone'', if truthy phone then phone else JStr []),
             (''email'', if truthy email then email else JStr ''demo@example.com'')]"
    by blast
  have "name = JStr ''Ann''" "phone = JNull" "email = JUndefined"
    using name phone email by (simp_all add: get_prop_def lookup_def)
  with params h show ?thesis
    by (simp add: truthy_def)
qed

section \<open>The canonical string\<close>

lemma set_own_keys: "set (own_keys kvs) = fst ` set kvs"
  by (auto simp: own_keys_def)

lemma distinct_own_keys: "distinct (map fst kvs) \<Longrightarrow> distinct (own_keys kvs)"
  by (auto simp: own_keys_def)

lemma mset_own_keys: "mset (own_keys kvs) = mset (map fst kvs)"
  by (simp add: own_keys_def)


lemma lookup_permutation:
  assumes "distinct (map fst P)" and "mset P' = mset P"
  shows "lookup P' = lookup P"
proof -
  have "mset (map fst P') = mset (map fst P)"
    using assms(2) by (metis mset_map)
  then have "distinct (map fst P')"
    using assms(1) by (metis mset_eq_imp_distinct_iff)
  moreover have "set P' = set P"
    using assms(2) by (rule mset_eq_setD)
  ultimately have "map_of P' = map_of P"
    using assms(1) by (simp add: map_of_inject_set)
  then show ?thesis
    by (simp add: lookup_def fun_eq_iff)
qed

lemma sort_own_keys_permutation:
  assumes "mset P' = mset P"
  shows "sort (own_keys P') = sort (own_keys P)"
proof (rule properties_for_sort)
  have "mset (map fst P') = mset (map fst P)"
    using assms by (metis mset_map)
  then show "mset (sort (own_keys P)) = mset (own_keys P')"
    by (simp add: mset_own_keys)
  show "sorted (sort (own_keys P))"
    by simp
qed

text \<open>
  The canonical string does not depend on the order in which the keys were inserted: any
  permutation of the properties of an object gives the same result.
\<close>

lemma paramString_insertion_order:
  assumes "distinct (map fst P)" and "mset P' = mset P"
  shows "paramString (JObj P') = paramString (JObj P)"
  by (simp add: paramString_def own_entries_def ordered_object_def
      lookup_permutation [OF assms] sort_own_keys_permutation [OF assms(2)])




lemma to_string_scalar: "is_scalar v \<Longrightarrow> to_string v = Inr (value_text v)"
  by (cases v) (simp_all add: is_scalar_def value_text_def)

lemma form_append_scalar:
  assumes "\<forall>k \<in> set ks. is_scalar (lookup ps k)"
  shows "form_append ps ks = Inr (map (\<lambda>k. (k, value_text (lookup ps k))) ks)"
  using assms by (induction ks) (simp_all add: to_string_scalar)




text \<open>Nothing is escaped: a value may itself contain \<^verbatim>\<open>&\<close> and \<^verbatim>\<open>=\<close>.\<close>

lemma paramString_not_escaped:
  "paramString (JObj [(''b'', JStr ''x y''), (''a'', JStr ''1&c=3'')]) = Inr ''a=1&c=3&b=x y''"
  by (simp add: paramString_def key_order_defs object_defs)

text \<open>
  Claim C1 at the keys \<^verbatim>\<open>10\<close> and \<^verbatim>\<open>9\<close>. Sorted as strings they are \<^verbatim>\<open>10\<close>,
  \<^verbatim>\<open>9\<close>, and this is the order of the specification's canonical string; but both are
  array indices, which the loop over the sorted object visits first and in numeric order,
  so the string that is signed starts with \<^verbatim>\<open>9\<close>.
\<close>

theorem canonical_string_array_index_keys:
  "paramString (JObj [(''10'', JStr ''a''), (''9'', JStr ''b'')]) = Inr ''9=b&10=a''
   \<and> canonicalize [(''10'', JStr ''a''), (''9'', JStr ''b'')] = ''10=a&9=b''
   \<and> sort [''10'', ''9''] = [''10'', ''9'']"
  by (simp add: paramString_def canonicalize_def value_text_def key_order_defs object_defs)

section \<open>The timestamp\<close>

















section \<open>Validation in the subscription route\<close>

lemma products_valid_True:
  "products_valid entries = Inr True \<Longrightarrow>
     \<forall>p \<in> set entries. \<exists>product_id quantity.
        get_prop p ''product_id'' = Inr product_id \<and> truthy product_id
      \<and> get_prop p ''quantity'' = Inr quantity \<and> is_number quantity"
proof (induction entries)
  case Nil
  then show ?case by simp
next
  case (Cons p ps)
  then show ?case
    by (auto simp: attempt_def split: sum.splits if_splits)
qed

text \<open>
  Whenever the products are not a list, are an empty list, or contain an entry without a
  truthy product id or a numeric quantity, the handler answers before the rest of it runs:
  the answer is the same for every continuation, so the gateway is never called. The
  status is 400, with no details, or 500 with the stack of what was thrown when reading
  an entry throws.
\<close>

lemma subscription_invalid_products_never_continue:
  assumes "get_prop body ''products'' = Inr products"
    and "\<forall>entries. products = JArr entries \<longrightarrow>
           entries = [] \<or> products_valid entries \<noteq> Inr True"
  shows "\<exists>st e d. (st = 400 \<and> d = NoDetails \<or> st = 500 \<and> d = StackOf e) \<and>
           (\<forall>continue. subscription_create_POST continue (Some body) = Rejected st e d)"
proof -
  have nn: "\<not> is_nullish body"
    using assms(1) by (rule get_prop_Inr_not_nullish)
  obtain customer_id where c: "get_prop body ''customer_id'' = Inr customer_id"
    using get_prop_total [OF nn] by blast
  obtain token_id where t: "get_prop body ''token_id'' = Inr token_id"
    using get_prop_total [OF nn] by blast
  obtain appcode where a: "get_prop body ''appcode'' = Inr appcode"
    using get_prop_total [OF nn] by blast
  note start = subscription_create_POST_def request_json_def c t a assms(1)
    attempt_Inr option.case
  show ?thesis
  proof (cases "\<not> truthy customer_id \<or> \<not> truthy token_id \<or> \<not> truthy products \<or> \<not> truthy appcode")
    case True
    then show ?thesis
      by (auto simp: start reject_def catch_all_def)
  next
    case all: False
    show ?thesis
    proof (cases "\<exists>entries. products = JArr entries")
      case False
      with all show ?thesis
        by (cases products) (auto simp: start reject_def catch_all_def)
    next
      case True
      then obtain entries where p: "products = JArr entries" by blast
      show ?thesis
      proof (cases "entries = []")
        case True
        with all p show ?thesis
          by (auto simp: start reject_def catch_all_def)
      next
        case ne: False
        with assms(2) p have "products_valid entries \<noteq> Inr True" by blast
        then consider e where "products_valid entries = Inl e" | "products_valid entries = Inr False"
          by (cases "products_valid entries") auto
        then show ?thesis
        proof cases
          case 1
          with all p ne show ?thesis
            by (auto simp: start reject_def catch_all_def)
        next
          case 2
          with all p ne show ?thesis
            by (auto simp: start reject_def catch_all_def)
        qed
      qed
    qed
  qed
qed

text \<open>
  Claim C5 at a list of products whose first entry is null and whose second entry has no
  product id: reading \<^verbatim>\<open>product.product_id\<close> from null throws, and the answer is the
  status 500 of the handler's \<^verbatim>\<open>catch\<close> with the message and the stack of the
  TypeError, not the validation error of status 400.
\<close>

theorem subscription_null_entry_is_server_error:
  "subscription_create_POST continue
     (Some (JObj [(''customer_id'', JStr ''c''), (''token_id'', JStr ''t''),
                  (''products'', JArr [JNull, JObj [(''quantity'', JNum 1)]]),
                  (''appcode'', JStr ''A'')]))
     = Rejected 500 TypeError (StackOf TypeError)"
  by (simp add: subscription_create_POST_def request_json_def get_prop_def lookup_def truthy_def
      catch_all_def)

theorem subscription_null_entry_is_server_error_witness:
  "subscription_create_POST (\<lambda>body. Inr (Accepted body))
     (Some (JObj [(''customer_id'', JStr ''c''), (''token_id'', JStr ''t''),
                  (''products'', JArr [JNull, JObj [(''quantity'', JNum 1)]]),
                  (''appcode'', JStr ''A'')]))
     = Rejected 500 TypeError (StackOf TypeError)"
  by (rule subscription_null_entry_is_server_error)

section \<open>Reading the gateway's response\<close>


lemma gateway_error_text_Inr:
  assumes "get_prop responseData ''respcd'' = Inr respcd"
    and "to_string respcd = Inr code"
    and "get_prop responseData ''respmsg'' = Inr respmsg"
    and "to_string (js_or respmsg (JStr ''Unknown error'')) = Inr msg"
  shows "gateway_error_text responseData = Inr (code @ '' - '' @ msg)"
  using assms by (simp add: gateway_error_text_def)













end
